theory Spec2Isabelle
  imports Main
begin

section \<open>Python strings: slicing, \<open>find\<close>, \<open>startswith\<close>\<close>

text \<open>
  A Python \<open>str\<close> is modelled as a \<open>string\<close> (a list of characters). The three string
  operations used by \<open>NotionAPI.py\<close> are written out with Python's conventions: a slice
  clamps its bounds to the string and counts a negative bound from the end, \<open>find\<close>
  returns the least index of an occurrence or \<open>-1\<close>.
\<close>

definition py_slice :: "'a list \<Rightarrow> int \<Rightarrow> int \<Rightarrow> 'a list" where
  "py_slice s a b =
     (let n = int (length s);
          lo = (if a < 0 then max (a + n) 0 else min a n);
          hi = (if b < 0 then max (b + n) 0 else min b n)
      in take (nat (hi - lo)) (drop (nat lo) s))"

definition py_slice_from :: "'a list \<Rightarrow> int \<Rightarrow> 'a list" where
  "py_slice_from s a =
     (let n = int (length s);
          lo = (if a < 0 then max (a + n) 0 else min a n)
      in drop (nat lo) s)"

definition startswith :: "string \<Rightarrow> string \<Rightarrow> bool" where
  "startswith s p = (take (length p) s = p)"

fun py_find :: "string \<Rightarrow> string \<Rightarrow> int" where
  "py_find [] sub = (if sub = [] then 0 else - 1)"
| "py_find (c # cs) sub =
     (if startswith (c # cs) sub then 0
      else (let r = py_find cs sub in if r < 0 then - 1 else r + 1))"

section \<open>Identifiers (\<open>NotionAPI._format_page_id\<close>, \<open>_extract_dbid_from_http_url\<close>)\<close>

text \<open>
  \<^verbatim>\<open>
  result = raw_id[0:8] + "-"
  result += raw_id[8:12] + "-"
  result += raw_id[12:16] + "-"
  result += raw_id[16:20] + "-"
  result += raw_id[20:]
  \<close>
\<close>

definition format_page_id :: "string \<Rightarrow> string" where
  "format_page_id raw_id =
     py_slice raw_id 0 8 @ ''-'' @ py_slice raw_id 8 12 @ ''-'' @ py_slice raw_id 12 16 @ ''-''
       @ py_slice raw_id 16 20 @ ''-'' @ py_slice_from raw_id 20"

text \<open>
  \<^verbatim>\<open>
  view_position_index = http_url.find("?v=")
  initial_pos = view_position_index - 32
  db_id = http_url[initial_pos:view_position_index]
  \<close>
\<close>

definition extract_dbid_from_http_url :: "string \<Rightarrow> string" where
  "extract_dbid_from_http_url http_url =
     (let view_position_index = py_find http_url ''?v='';
          initial_pos = view_position_index - 32
      in py_slice http_url initial_pos view_position_index)"

text \<open>
  The canonical form the specification names: 36 characters, dashes at the 0-indexed
  positions 8, 13, 18 and 23, hexadecimal digits everywhere else (8-4-4-4-12). The source has
  no such check; the predicate is used only to state properties of \<open>format_page_id\<close>.
\<close>

definition hexdigit :: "char \<Rightarrow> bool" where
  "hexdigit c = (c \<in> set ''0123456789abcdefABCDEF'')"

definition canonical_id :: "string \<Rightarrow> bool" where
  "canonical_id s =
     (length s = 36 \<and> s ! 8 = CHR ''-'' \<and> s ! 13 = CHR ''-'' \<and> s ! 18 = CHR ''-''
        \<and> s ! 23 = CHR ''-''
        \<and> list_all hexdigit (take 8 s) \<and> list_all hexdigit (take 4 (drop 9 s))
        \<and> list_all hexdigit (take 4 (drop 14 s)) \<and> list_all hexdigit (take 4 (drop 19 s))
        \<and> list_all hexdigit (drop 24 s))"

section \<open>Python values as they come out of \<open>json.loads\<close>\<close>

text \<open>
  Every value the wrappers in \<open>NotionPage.py\<close> touch is a parsed JSON document: \<open>None\<close>,
  a \<open>bool\<close>, a number, a \<open>str\<close>, a \<open>list\<close> or a \<open>dict\<close> with string keys. A \<open>dict\<close> is
  an association list in the dictionary's own key order; a dictionary has each key once, and
  \<open>map_of\<close> reads the entry. Numbers are Python integers (a JSON float is passed through
  the same code paths unchanged, and \<open>0.0\<close> is falsy exactly as \<open>0\<close> is). The value the
  decoder returns is again such a value, \<open>JNull\<close> being \<open>None\<close>.
\<close>

datatype json =
    JNull
  | JBool bool
  | JNum int
  | JStr string
  | JArr "json list"
  | JObj "(string \<times> json) list"

datatype py_error =
    KeyError
  | IndexError
  | TypeError
  | AttributeError
  | JSONDecodeError
  | SystemExit
  | UnboundLocalError

definition bind_err :: "py_error + 'a \<Rightarrow> ('a \<Rightarrow> py_error + 'b) \<Rightarrow> py_error + 'b" where
  "bind_err m f = (case m of Inl e \<Rightarrow> Inl e | Inr v \<Rightarrow> f v)"

fun map_err :: "('a \<Rightarrow> py_error + 'b) \<Rightarrow> 'a list \<Rightarrow> py_error + 'b list" where
  "map_err f [] = Inr []"
| "map_err f (x # xs) =
     (case f x of Inl e \<Rightarrow> Inl e
      | Inr y \<Rightarrow> (case map_err f xs of Inl e \<Rightarrow> Inl e | Inr ys \<Rightarrow> Inr (y # ys)))"

text \<open>Truth value testing (\<open>not self.value\<close>, \<open>while json_content["has_more"]\<close>).\<close>

fun truthy :: "json \<Rightarrow> bool" where
  "truthy JNull = False"
| "truthy (JBool b) = b"
| "truthy (JNum n) = (n \<noteq> 0)"
| "truthy (JStr s) = (s \<noteq> [])"
| "truthy (JArr xs) = (xs \<noteq> [])"
| "truthy (JObj kvs) = (kvs \<noteq> [])"

text \<open>\<open>len(v)\<close>: a number, a boolean and \<open>None\<close> have no length.\<close>

fun py_len :: "json \<Rightarrow> py_error + nat" where
  "py_len (JStr s) = Inr (length s)"
| "py_len (JArr xs) = Inr (length xs)"
| "py_len (JObj kvs) = Inr (length kvs)"
| "py_len v = Inl TypeError"

text \<open>Iteration (\<open>for x in v\<close>): a string yields its characters, a dictionary its keys.\<close>

fun py_iter :: "json \<Rightarrow> py_error + json list" where
  "py_iter (JArr xs) = Inr xs"
| "py_iter (JStr s) = Inr (map (\<lambda>c. JStr [c]) s)"
| "py_iter (JObj kvs) = Inr (map (\<lambda>kv. JStr (fst kv)) kvs)"
| "py_iter v = Inl TypeError"

text \<open>Positional indexing of a sequence: a negative index counts from the end.\<close>

definition py_index :: "'a list \<Rightarrow> int \<Rightarrow> py_error + 'a" where
  "py_index xs i =
     (if 0 \<le> i \<and> i < int (length xs) then Inr (xs ! nat i)
      else if i < 0 \<and> - int (length xs) \<le> i then Inr (xs ! nat (i + int (length xs)))
      else Inl IndexError)"

text \<open>
  Subscription \<open>v[k]\<close>. The keys of a parsed JSON dictionary are strings, so any other hashable
  key is missing, and a list or dictionary used as a key is unhashable. A boolean used as a
  position is the integer 0 or 1.
\<close>

fun py_getitem :: "json \<Rightarrow> json \<Rightarrow> py_error + json" where
  "py_getitem (JObj kvs) (JStr k) = (case map_of kvs k of None \<Rightarrow> Inl KeyError | Some v \<Rightarrow> Inr v)"
| "py_getitem (JObj kvs) (JArr ks) = Inl TypeError"
| "py_getitem (JObj kvs) (JObj ks) = Inl TypeError"
| "py_getitem (JObj kvs) k = Inl KeyError"
| "py_getitem (JArr xs) (JNum i) = py_index xs i"
| "py_getitem (JArr xs) (JBool b) = py_index xs (if b then 1 else 0)"
| "py_getitem (JArr xs) k = Inl TypeError"
| "py_getitem (JStr s) (JNum i) = bind_err (py_index s i) (\<lambda>c. Inr (JStr [c]))"
| "py_getitem (JStr s) (JBool b) = bind_err (py_index s (if b then 1 else 0)) (\<lambda>c. Inr (JStr [c]))"
| "py_getitem (JStr s) k = Inl TypeError"
| "py_getitem v k = Inl TypeError"

text \<open>
  In-place addition \<open>a += b\<close>: a list is extended by any iterable, strings concatenate,
  numbers (booleans included) add.
\<close>

fun py_iadd :: "json \<Rightarrow> json \<Rightarrow> py_error + json" where
  "py_iadd (JArr xs) y = bind_err (py_iter y) (\<lambda>ys. Inr (JArr (xs @ ys)))"
| "py_iadd (JStr s) (JStr t) = Inr (JStr (s @ t))"
| "py_iadd (JNum a) (JNum b) = Inr (JNum (a + b))"
| "py_iadd (JNum a) (JBool b) = Inr (JNum (a + (if b then 1 else 0)))"
| "py_iadd (JBool a) (JNum b) = Inr (JNum ((if a then 1 else 0) + b))"
| "py_iadd (JBool a) (JBool b) = Inr (JNum ((if a then 1 else 0) + (if b then 1 else 0)))"
| "py_iadd x y = Inl TypeError"

section \<open>\<open>NotionRichTextObject\<close> and \<open>NotionPageProperty\<close>\<close>

record notion_rich_text_object =
  plain_text :: json
  href :: json
  annotations :: json
  rto_type :: json

definition NotionRichTextObject :: "json \<Rightarrow> py_error + notion_rich_text_object" where
  "NotionRichTextObject rich_text_object =
     bind_err (py_getitem rich_text_object (JStr ''plain_text'')) (\<lambda>pt.
     bind_err (py_getitem rich_text_object (JStr ''href'')) (\<lambda>h.
     bind_err (py_getitem rich_text_object (JStr ''annotations'')) (\<lambda>a.
     bind_err (py_getitem rich_text_object (JStr ''type'')) (\<lambda>t.
       Inr \<lparr>plain_text = pt, href = h, annotations = a, rto_type = t\<rparr>))))"

definition get_plain_text :: "notion_rich_text_object \<Rightarrow> json" where
  "get_plain_text r = plain_text r"

record notion_page_property =
  prop_id :: json
  prop_type :: json
  prop_value :: json

text \<open>
  \<^verbatim>\<open>
  self.id = page_property["id"]
  self.type = page_property["type"]
  self.value = page_property[self.type]
  \<close>
\<close>

definition NotionPageProperty :: "json \<Rightarrow> py_error + notion_page_property" where
  "NotionPageProperty page_property =
     bind_err (py_getitem page_property (JStr ''id'')) (\<lambda>i.
     bind_err (py_getitem page_property (JStr ''type'')) (\<lambda>t.
     bind_err (py_getitem page_property t) (\<lambda>v.
       Inr \<lparr>prop_id = i, prop_type = t, prop_value = v\<rparr>)))"

definition get_files_value :: "notion_page_property \<Rightarrow> py_error + json" where
  "get_files_value p =
     bind_err (py_getitem (prop_value p) (JNum 0)) (\<lambda>f. py_getitem f (JStr ''name''))"

definition get_select_value :: "notion_page_property \<Rightarrow> py_error + json" where
  "get_select_value p = py_getitem (prop_value p) (JStr ''name'')"

definition get_rollup_value :: "notion_page_property \<Rightarrow> py_error + json" where
  "get_rollup_value p =
     bind_err (py_getitem (prop_value p) (JStr ''type'')) (\<lambda>property_type.
       py_getitem (prop_value p) property_type)"

definition get_number_value :: "notion_page_property \<Rightarrow> py_error + json" where
  "get_number_value p = Inr (prop_value p)"

definition get_checkbox_value :: "notion_page_property \<Rightarrow> py_error + json" where
  "get_checkbox_value p = Inr (prop_value p)"

definition get_string_value :: "notion_page_property \<Rightarrow> py_error + json" where
  "get_string_value p = Inr (prop_value p)"

definition get_multi_select_value :: "notion_page_property \<Rightarrow> py_error + json" where
  "get_multi_select_value p =
     bind_err (py_iter (prop_value p)) (\<lambda>selections.
     bind_err (map_err (\<lambda>selection. py_getitem selection (JStr ''name'')) selections) (\<lambda>result.
       Inr (JArr result)))"

definition get_relation_value :: "notion_page_property \<Rightarrow> py_error + json" where
  "get_relation_value p =
     bind_err (py_iter (prop_value p)) (\<lambda>relations.
     bind_err (map_err (\<lambda>relation. py_getitem relation (JStr ''id'')) relations) (\<lambda>result.
       Inr (JArr result)))"

definition get_rich_text_value :: "notion_page_property \<Rightarrow> py_error + json" where
  "get_rich_text_value p =
     bind_err (py_getitem (prop_value p) (JNum 0)) (\<lambda>first.
     bind_err (NotionRichTextObject first) (\<lambda>rich_text_object.
       Inr (get_plain_text rich_text_object)))"

definition get_title_value :: "notion_page_property \<Rightarrow> py_error + json" where
  "get_title_value p =
     bind_err (py_getitem (prop_value p) (JNum 0)) (\<lambda>first.
     bind_err (NotionRichTextObject first) (\<lambda>rich_text_object.
       Inr (get_plain_text rich_text_object)))"

text \<open>
  The dispatch dictionary of \<open>get_value\<close>, entry for entry, and the lookup
  \<open>type_to_function[self.type]\<close>: a missing key raises \<open>KeyError\<close>, an unhashable one
  \<open>TypeError\<close>.
\<close>

definition type_to_function :: "(string \<times> (notion_page_property \<Rightarrow> py_error + json)) list" where
  "type_to_function =
     [(''title'', get_title_value),
      (''rich_text'', get_rich_text_value),
      (''relation'', get_relation_value),
      (''multi_select'', get_multi_select_value),
      (''phone_number'', get_string_value),
      (''rollup'', get_rollup_value),
      (''url'', get_string_value),
      (''date'', get_string_value),
      (''select'', get_select_value),
      (''email'', get_string_value),
      (''files'', get_files_value),
      (''number'', get_number_value)]"

fun lookup_function :: "json \<Rightarrow> py_error + (notion_page_property \<Rightarrow> py_error + json)" where
  "lookup_function (JStr t) =
     (case map_of type_to_function t of None \<Rightarrow> Inl KeyError | Some f \<Rightarrow> Inr f)"
| "lookup_function (JArr ks) = Inl TypeError"
| "lookup_function (JObj ks) = Inl TypeError"
| "lookup_function k = Inl KeyError"

text \<open>
  \<^verbatim>\<open>
  if self.type == "checkbox":
      return self._get_checkbox_value()
  if not self.value:
      return None
  if self.type not in ["number"]:
      if len(self.value) == 0:
          return None
  type_to_function = {...}
  return type_to_function[self.type]()
  \<close>
\<close>

definition get_value :: "notion_page_property \<Rightarrow> py_error + json" where
  "get_value p =
     (if prop_type p = JStr ''checkbox'' then get_checkbox_value p
      else if \<not> truthy (prop_value p) then Inr JNull
      else bind_err
             (if prop_type p \<noteq> JStr ''number''
              then bind_err (py_len (prop_value p)) (\<lambda>n. Inr (n = 0))
              else Inr False)
             (\<lambda>empty. if empty then Inr JNull
                else bind_err (lookup_function (prop_type p)) (\<lambda>f. f p)))"

section \<open>\<open>NotionPage\<close>\<close>

record notion_page =
  pg_object :: json
  pg_id :: json
  pg_created_time :: json
  pg_last_edited_time :: json
  pg_cover :: json
  pg_icon :: json
  pg_parent :: json
  pg_archived :: json
  pg_properties :: json
  pg_url :: json


text \<open>\<open>self.properties.keys()\<close>: only a dictionary has the method.\<close>

definition get_properties_keys :: "notion_page \<Rightarrow> py_error + string list" where
  "get_properties_keys page =
     (case pg_properties page of JObj kvs \<Rightarrow> Inr (map fst kvs) | _ \<Rightarrow> Inl AttributeError)"

definition get_property :: "notion_page \<Rightarrow> string \<Rightarrow> py_error + notion_page_property" where
  "get_property page key =
     bind_err (py_getitem (pg_properties page) (JStr key)) NotionPageProperty"

definition get_property_value :: "notion_page \<Rightarrow> string \<Rightarrow> py_error + json" where
  "get_property_value page key = bind_err (get_property page key) get_value"

section \<open>The table (\<open>NotionAPI.pages_to_dataframe\<close>)\<close>

text \<open>
  The pandas \<open>DataFrame\<close> is modelled by what the function uses of it: the column labels in
  order, the row labels in order, and the cells. \<open>pd.DataFrame(columns=c)\<close> is the table with
  the columns \<open>c\<close> and no row. The assignment \<open>df.at[x, key] = value\<close> sets one cell and, as
  pandas does for a label it does not have yet, enlarges the table: an unknown row label is
  appended to the index and an unknown column label to the columns. A cell that was never
  assigned is missing (\<open>NaN\<close>), here \<open>None\<close>; an assigned cell holds the assigned value.
\<close>

record dataframe =
  df_columns :: "string list"
  df_index :: "nat list"
  df_cells :: "nat \<times> string \<Rightarrow> json option"

definition DataFrame :: "string list \<Rightarrow> dataframe" where
  "DataFrame columns = \<lparr>df_columns = columns, df_index = [], df_cells = (\<lambda>c. None)\<rparr>"

definition df_at_set :: "dataframe \<Rightarrow> nat \<Rightarrow> string \<Rightarrow> json \<Rightarrow> dataframe" where
  "df_at_set df x key v =
     \<lparr>df_columns = (if key \<in> set (df_columns df) then df_columns df else df_columns df @ [key]),
      df_index = (if x \<in> set (df_index df) then df_index df else df_index df @ [x]),
      df_cells = (df_cells df)((x, key) \<mapsto> v)\<rparr>"

text \<open>
  \<^verbatim>\<open>
  for key in property_keys:
      value = page.get_property_value(key)
      df.at[x, key] = value
  \<close>
\<close>

fun set_cells :: "nat \<Rightarrow> notion_page \<Rightarrow> string list \<Rightarrow> dataframe \<Rightarrow> py_error + dataframe" where
  "set_cells x page [] df = Inr df"
| "set_cells x page (key # keys) df =
     (case get_property_value page key of Inl e \<Rightarrow> Inl e
      | Inr v \<Rightarrow> set_cells x page keys (df_at_set df x key v))"

text \<open>\<open>for x, page in enumerate(notion_pages)\<close>, from the position \<open>x\<close> on.\<close>

fun fill_rows :: "nat \<Rightarrow> notion_page list \<Rightarrow> dataframe \<Rightarrow> py_error + dataframe" where
  "fill_rows x [] df = Inr df"
| "fill_rows x (page # pages) df =
     (case get_properties_keys page of Inl e \<Rightarrow> Inl e
      | Inr property_keys \<Rightarrow>
          (case set_cells x page property_keys df of Inl e \<Rightarrow> Inl e
           | Inr df' \<Rightarrow> fill_rows (Suc x) pages df'))"

text \<open>
  \<^verbatim>\<open>
  columns = notion_pages[0].get_properties_keys()
  df = pd.DataFrame(columns=columns)
  for x, page in enumerate(notion_pages): ...
  return df
  \<close>
\<close>

definition pages_to_dataframe :: "notion_page list \<Rightarrow> py_error + dataframe" where
  "pages_to_dataframe notion_pages =
     (case notion_pages of [] \<Rightarrow> Inl IndexError
      | first # rest \<Rightarrow>
          bind_err (get_properties_keys first) (\<lambda>columns.
            fill_rows 0 notion_pages (DataFrame columns)))"

section \<open>The paginated query (\<open>NotionAPI.query_db\<close>)\<close>

text \<open>
  The remote service is a script: the list of the responses it will give, one per request, in
  order. A response is either no response at all (\<open>requests.post\<close> raised) or a status code
  with a body; the body is given as \<open>json.loads\<close> reads it, \<open>None\<close> when it is not JSON. Every
  request the code issues is appended to a log. When the script is used up while the code
  still asks, the run has no outcome (\<open>None\<close>): the source's loop has no bound of its own.
  Log messages are not modelled.
\<close>

record request =
  req_url :: string
  req_headers :: "(string \<times> string) list"
  req_data :: "string option"
  req_json :: "json option"

datatype http_response =
    ConnectionFailure
  | Response nat "json option"

definition build_headers :: "string \<Rightarrow> (string \<times> string) list" where
  "build_headers notion_api_key =
     [(''Notion-Version'', ''2021-08-16''), (''Authorization'', ''Bearer '' @ notion_api_key)]"

text \<open>
  \<open>post_request\<close>: \<open>raise_for_status\<close> raises for a status from 400 to 599, which the handler
  turns into \<open>SystemExit\<close>. When \<open>requests.post\<close> itself raised, the handler's log line reads
  the unassigned local \<open>response\<close>.
\<close>

fun post_request :: "http_response \<Rightarrow> py_error + json option" where
  "post_request ConnectionFailure = Inl UnboundLocalError"
| "post_request (Response status body) =
     (if 400 \<le> status \<and> status < 600 then Inl SystemExit else Inr body)"

fun json_loads :: "json option \<Rightarrow> py_error + json" where
  "json_loads None = Inl JSONDecodeError"
| "json_loads (Some js) = Inr js"

definition query_url :: "string \<Rightarrow> string" where
  "query_url db = ''https://api.notion.com/v1/databases/'' @ db @ ''/query''"

text \<open>
  \<open>if db.startswith("https"): db = self._extract_dbid_from_http_url(db)\<close>
\<close>

definition resolve_db :: "string \<Rightarrow> string" where
  "resolve_db db = (if startswith db ''https'' then extract_dbid_from_http_url db else db)"

text \<open>
  The two requests \<open>query_db\<close> posts to the query endpoint: the first with the query as its
  \<open>data\<close>, every later one with \<open>{"start_cursor": next_cursor}\<close> as its JSON body.
\<close>

definition first_request :: "string \<Rightarrow> (string \<times> string) list \<Rightarrow> string \<Rightarrow> request" where
  "first_request db headers query =
     \<lparr>req_url = query_url db, req_headers = headers, req_data = Some query, req_json = None\<rparr>"

definition follow_up :: "string \<Rightarrow> (string \<times> string) list \<Rightarrow> json \<Rightarrow> request" where
  "follow_up db headers next_cursor =
     \<lparr>req_url = query_url db, req_headers = headers, req_data = None,
      req_json = Some (JObj [(''start_cursor'', next_cursor)])\<rparr>"

text \<open>
  The loop test and the request of one more iteration:
  \<^verbatim>\<open>
  while json_content["has_more"]:
      next_cursor = json_content["next_cursor"]
      data = dict()
      data["start_cursor"] = next_cursor
  \<close>
\<close>

definition next_request ::
  "string \<Rightarrow> (string \<times> string) list \<Rightarrow> json \<Rightarrow> py_error + request option" where
  "next_request db headers json_content =
     bind_err (py_getitem json_content (JStr ''has_more'')) (\<lambda>has_more.
       if truthy has_more
       then bind_err (py_getitem json_content (JStr ''next_cursor'')) (\<lambda>next_cursor.
              Inr (Some (follow_up db headers next_cursor)))
       else Inr None)"

text \<open>
  \<^verbatim>\<open>
  json_content = json.loads(response.content)
  json_results += json_content["results"]
  \<close>
\<close>

definition absorb_response :: "json \<Rightarrow> http_response \<Rightarrow> py_error + json \<times> json" where
  "absorb_response json_results response =
     bind_err (post_request response) (\<lambda>body.
     bind_err (json_loads body) (\<lambda>json_content.
     bind_err (py_getitem json_content (JStr ''results'')) (\<lambda>results.
     bind_err (py_iadd json_results results) (\<lambda>json_results'.
       Inr (json_content, json_results')))))"

fun fetch_more ::
  "string \<Rightarrow> (string \<times> string) list \<Rightarrow> json \<Rightarrow> json \<Rightarrow> http_response list \<Rightarrow> request list
     \<Rightarrow> (py_error + json) option \<times> request list" where
  "fetch_more db headers json_content json_results script log =
     (case next_request db headers json_content of
        Inl e \<Rightarrow> (Some (Inl e), log)
      | Inr None \<Rightarrow> (Some (Inr json_results), log)
      | Inr (Some req) \<Rightarrow>
          (case script of
             [] \<Rightarrow> (None, log @ [req])
           | response # script' \<Rightarrow>
               (case absorb_response json_results response of
                  Inl e \<Rightarrow> (Some (Inl e), log @ [req])
                | Inr (json_content', json_results') \<Rightarrow>
                    fetch_more db headers json_content' json_results' script' (log @ [req]))))"

declare fetch_more.simps [simp del]

text \<open>
  The fetch phase of \<open>query_db\<close>, up to the end of the \<open>while\<close> loop: the identifier is taken
  out of a URL, the first request carries the query as its body, and the first response's
  result list starts the accumulator.
\<close>

definition first_response :: "http_response \<Rightarrow> py_error + json \<times> json" where
  "first_response response =
     bind_err (post_request response) (\<lambda>body.
     bind_err (json_loads body) (\<lambda>json_content.
     bind_err (py_getitem json_content (JStr ''results'')) (\<lambda>json_results.
       Inr (json_content, json_results))))"

definition query_db_fetch ::
  "string \<Rightarrow> string \<Rightarrow> string \<Rightarrow> http_response list
     \<Rightarrow> (py_error + json) option \<times> request list" where
  "query_db_fetch notion_api_key db query script =
     (let db' = resolve_db db;
          headers = build_headers notion_api_key;
          req = first_request db' headers query
      in case script of
           [] \<Rightarrow> (None, [req])
         | response # script' \<Rightarrow>
             (case first_response response of
                Inl e \<Rightarrow> (Some (Inl e), [req])
              | Inr (json_content, json_results) \<Rightarrow>
                  fetch_more db' headers json_content json_results script' [req]))"





section \<open>Notions used to state the properties\<close>

text \<open>The type tags the specification lists as recognized.\<close>

definition recognized_tags :: "string list" where
  "recognized_tags =
     [''title'', ''rich_text'', ''relation'', ''multi_select'', ''phone_number'', ''rollup'',
      ''url'', ''date'', ''select'', ''email'', ''files'', ''number'', ''checkbox'']"


definition decodable :: "notion_page \<Rightarrow> bool" where
  "decodable page =
     (case pg_properties page of
        JObj kvs \<Rightarrow>
          list_all (\<lambda>k. case get_property_value page k of Inr v \<Rightarrow> True | Inl e \<Rightarrow> False)
            (map fst kvs)
      | _ \<Rightarrow> False)"


text \<open>
  What the fetch loop reads in a response body: the result list, the \<open>has_more\<close> flag and,
  when the flag is set, the cursor. A response is a page when \<open>post_request\<close> lets it through
  and its body reads so.
\<close>

definition body_with_more :: "json \<Rightarrow> json list \<Rightarrow> json \<Rightarrow> bool" where
  "body_with_more json_content xs cursor =
     (py_getitem json_content (JStr ''results'') = Inr (JArr xs)
      \<and> (case py_getitem json_content (JStr ''has_more'') of Inr hm \<Rightarrow> truthy hm | Inl e \<Rightarrow> False)
      \<and> py_getitem json_content (JStr ''next_cursor'') = Inr cursor)"


definition page_with_more :: "http_response \<Rightarrow> json list \<Rightarrow> json \<Rightarrow> bool" where
  "page_with_more response xs cursor =
     (case post_request response of
        Inr (Some json_content) \<Rightarrow> body_with_more json_content xs cursor
      | _ \<Rightarrow> False)"


section \<open>Example data\<close>






section \<open>Properties of the identifier functions\<close>

lemma py_slice_nonneg:
  "0 \<le> a \<Longrightarrow> a \<le> b \<Longrightarrow> py_slice s a b = take (nat b - nat a) (drop (nat a) s)"
  by (auto simp: py_slice_def Let_def min_def nat_diff_distrib')

lemma format_page_id_unfold:
  "format_page_id r =
     take 8 r @ ''-'' @ take 4 (drop 8 r) @ ''-'' @ take 4 (drop 12 r) @ ''-''
       @ take 4 (drop 16 r) @ ''-'' @ drop 20 r"
proof -
  have "py_slice_from r 20 = drop 20 r"
    by (auto simp: py_slice_from_def Let_def min_def)
  then show ?thesis
    by (simp add: format_page_id_def py_slice_nonneg)
qed

lemma length_format_page_id: "length (format_page_id r) = length r + 4"
  by (simp add: format_page_id_unfold)

lemma py_find_first:
  "k \<le> length s \<Longrightarrow> startswith (drop k s) sub \<Longrightarrow> \<forall>i<k. \<not> startswith (drop i s) sub
     \<Longrightarrow> py_find s sub = int k"
proof (induction s arbitrary: k)
  case Nil
  then show ?case by (auto simp: startswith_def)
next
  case (Cons c cs)
  show ?case
  proof (cases k)
    case 0
    with Cons.prems show ?thesis by simp
  next
    case (Suc j)
    with Cons.prems have nz: "\<not> startswith (c # cs) sub" by force
    have "\<forall>i<j. \<not> startswith (drop i cs) sub"
    proof (intro allI impI)
      fix i assume "i < j"
      then have "Suc i < k" using Suc by simp
      with Cons.prems(3) have "\<not> startswith (drop (Suc i) (c # cs)) sub" by blast
      then show "\<not> startswith (drop i cs) sub" by simp
    qed
    moreover have "j \<le> length cs" "startswith (drop j cs) sub"
      using Cons.prems Suc by auto
    ultimately have "py_find cs sub = int j" using Cons.IH by blast
    with nz Suc show ?thesis by (simp add: Let_def)
  qed
qed

lemma py_slice_middle:
  "py_slice (pre @ mid @ suf) (int (length pre)) (int (length pre + length mid)) = mid"
  by (simp add: py_slice_def Let_def min_def)

text \<open>
  Claim C6. For a URL \<open>prefix @ ident @ "?v=" @ suffix\<close> in which \<open>ident\<close> has 32 characters
  and the marker \<open>?v=\<close> occurs at no position before the end of \<open>ident\<close>, the extraction
  returns exactly \<open>ident\<close>.
\<close>

theorem extract_dbid_from_http_url_embedded:
  assumes "length ident = 32"
    and "\<forall>i<length pre + 32. \<not> startswith (drop i (pre @ ident @ ''?v='' @ suf)) ''?v=''"
  shows "extract_dbid_from_http_url (pre @ ident @ ''?v='' @ suf) = ident"
proof -
  let ?url = "pre @ ident @ ''?v='' @ suf"
  have "startswith (drop (length pre + 32) ?url) ''?v=''"
    using assms(1) by (simp add: startswith_def)
  then have "py_find ?url ''?v='' = int (length pre + 32)"
    using assms by (intro py_find_first) auto
  moreover have "py_slice ?url (int (length pre)) (int (length pre + length ident)) = ident"
    by (rule py_slice_middle)
  ultimately show ?thesis
    using assms(1) by (simp add: extract_dbid_from_http_url_def Let_def)
qed

lemma no_marker_without_question_mark:
  "CHR ''?'' \<notin> set xs \<Longrightarrow> \<forall>i<length xs. \<not> startswith (drop i (xs @ ys)) ''?v=''"
proof (intro allI impI)
  fix i assume a: "CHR ''?'' \<notin> set xs" "i < length xs"
  then have "drop i (xs @ ys) = xs ! i # drop (Suc i) (xs @ ys)"
    by (metis Cons_nth_drop_Suc length_append nth_append trans_less_add1)
  moreover have "xs ! i \<noteq> CHR ''?''" using a by (metis nth_mem)
  ultimately show "\<not> startswith (drop i (xs @ ys)) ''?v=''"
    by (simp add: startswith_def)
qed

theorem extract_dbid_from_http_url_embedded_witness:
  "extract_dbid_from_http_url
     (''https://www.notion.so/team/'' @ ''0123456789abcdef0123456789abcdef'' @ ''?v='' @ ''77aa'')
   = ''0123456789abcdef0123456789abcdef''"
proof -
  have "\<forall>i<length (''https://www.notion.so/team/'' @ ''0123456789abcdef0123456789abcdef'').
          \<not> startswith (drop i ((''https://www.notion.so/team/'' @ ''0123456789abcdef0123456789abcdef'')
               @ ''?v='' @ ''77aa'')) ''?v=''"
    by (rule no_marker_without_question_mark) simp
  then have "\<forall>i<length ''https://www.notion.so/team/'' + 32.
          \<not> startswith (drop i (''https://www.notion.so/team/'' @ ''0123456789abcdef0123456789abcdef''
               @ ''?v='' @ ''77aa'')) ''?v=''"
    by simp
  moreover have "length ''0123456789abcdef0123456789abcdef'' = 32" by simp
  ultimately show ?thesis
    by (rule extract_dbid_from_http_url_embedded [rotated])
qed

lemma format_page_id_split:
  assumes "length raw = 32"
  obtains a b c d e where "raw = a @ b @ c @ d @ e" "length a = 8" "length b = 4" "length c = 4"
    "length d = 4" "length e = 12"
    "format_page_id raw = a @ ''-'' @ b @ ''-'' @ c @ ''-'' @ d @ ''-'' @ e"
proof
  let ?a = "take 8 raw" and ?b = "take 4 (drop 8 raw)" and ?c = "take 4 (drop 12 raw)"
    and ?d = "take 4 (drop 16 raw)" and ?e = "drop 20 raw"
  have "raw = take 8 raw @ drop 8 raw" by simp
  also have "drop 8 raw = ?b @ drop 12 raw"
    using append_take_drop_id [of 4 "drop 8 raw"] by simp
  also have "drop 12 raw = ?c @ drop 16 raw"
    using append_take_drop_id [of 4 "drop 12 raw"] by simp
  also have "drop 16 raw = ?d @ ?e"
    using append_take_drop_id [of 4 "drop 16 raw"] by simp
  finally show "raw = ?a @ ?b @ ?c @ ?d @ ?e" .
  show "format_page_id raw = ?a @ ''-'' @ ?b @ ''-'' @ ?c @ ''-'' @ ?d @ ''-'' @ ?e"
    by (rule format_page_id_unfold)
  show "length ?a = 8" "length ?b = 4" "length ?c = 4" "length ?d = 4" "length ?e = 12"
    using assms by simp_all
qed

text \<open>
  Claim C5. For a raw identifier of exactly 32 characters, none of them a dash, the formatted
  identifier has 36 characters, its dashes are exactly at the 0-indexed positions 8, 13, 18
  and 23, and removing the dashes gives back the raw identifier: the 32 characters are kept
  in order.
\<close>

theorem format_page_id_dashed:
  assumes "length raw = 32" and "CHR ''-'' \<notin> set raw"
  shows "length (format_page_id raw) = 36
    \<and> (\<forall>i<36. (format_page_id raw ! i = CHR ''-'') = (i \<in> {8, 13, 18, 23}))
    \<and> filter (\<lambda>c. c \<noteq> CHR ''-'') (format_page_id raw) = raw"
proof -
  obtain a b c d e where s: "raw = a @ b @ c @ d @ e" "length a = 8" "length b = 4" "length c = 4"
    "length d = 4" "length e = 12"
    "format_page_id raw = a @ ''-'' @ b @ ''-'' @ c @ ''-'' @ d @ ''-'' @ e"
    using format_page_id_split [OF assms(1)] by blast
  have nd: "\<And>x. x \<in> set a \<or> x \<in> set b \<or> x \<in> set c \<or> x \<in> set d \<or> x \<in> set e \<Longrightarrow> x \<noteq> CHR ''-''"
    using assms(2) s(1) by auto
  have "filter (\<lambda>c. c \<noteq> CHR ''-'') (format_page_id raw) = raw"
    using nd by (simp add: s(7)) (simp add: s(1) filter_id_conv)
  moreover have "\<forall>i<36. (format_page_id raw ! i = CHR ''-'') = (i \<in> {8, 13, 18, 23})"
  proof (intro allI impI)
    fix i :: nat assume "i < 36"
    then consider "i < 8" | "i = 8" | "8 < i" "i < 13" | "i = 13" | "13 < i" "i < 18" | "i = 18"
      | "18 < i" "i < 23" | "i = 23" | "23 < i" "i < 36" by linarith
    then show "(format_page_id raw ! i = CHR ''-'') = (i \<in> {8, 13, 18, 23})"
    proof cases
      case 1
      then have "format_page_id raw ! i = a ! i" unfolding s(7) by (simp add: s(2-6) nth_append)
      moreover have "a ! i \<in> set a" using 1 s(2) by simp
      ultimately show ?thesis using nd 1 by auto
    next
      case 2 then show ?thesis unfolding s(7) by (simp add: s(2-6) nth_append)
    next
      case 3
      then have "format_page_id raw ! i = b ! (i - 9)" unfolding s(7) by (auto simp add: s(2-6) nth_append nth_Cons')
      moreover have "b ! (i - 9) \<in> set b" using 3 s(3) by simp
      ultimately show ?thesis using nd 3 by auto
    next
      case 4 then show ?thesis unfolding s(7) by (simp add: s(2-6) nth_append)
    next
      case 5
      then have "format_page_id raw ! i = c ! (i - 14)" unfolding s(7) by (auto simp add: s(2-6) nth_append nth_Cons')
      moreover have "c ! (i - 14) \<in> set c" using 5 s(4) by simp
      ultimately show ?thesis using nd 5 by auto
    next
      case 6 then show ?thesis unfolding s(7) by (simp add: s(2-6) nth_append)
    next
      case 7
      then have "format_page_id raw ! i = d ! (i - 19)" unfolding s(7) by (auto simp add: s(2-6) nth_append nth_Cons')
      moreover have "d ! (i - 19) \<in> set d" using 7 s(5) by simp
      ultimately show ?thesis using nd 7 by auto
    next
      case 8 then show ?thesis unfolding s(7) by (simp add: s(2-6) nth_append)
    next
      case 9
      then have "format_page_id raw ! i = e ! (i - 24)" unfolding s(7) by (auto simp add: s(2-6) nth_append nth_Cons')
      moreover have "e ! (i - 24) \<in> set e" using 9 s(6) by simp
      ultimately show ?thesis using nd 9 by auto
    qed
  qed
  ultimately show ?thesis using assms(1) by (simp add: length_format_page_id)
qed

theorem format_page_id_dashed_witness:
  "length (format_page_id ''0123456789abcdef0123456789abcdef'') = 36
    \<and> format_page_id ''0123456789abcdef0123456789abcdef'' ! 8 = CHR ''-''
    \<and> format_page_id ''0123456789abcdef0123456789abcdef'' ! 13 = CHR ''-''
    \<and> format_page_id ''0123456789abcdef0123456789abcdef'' ! 18 = CHR ''-''
    \<and> format_page_id ''0123456789abcdef0123456789abcdef'' ! 23 = CHR ''-''
    \<and> format_page_id ''0123456789abcdef0123456789abcdef'' ! 12 \<noteq> CHR ''-''
    \<and> filter (\<lambda>c. c \<noteq> CHR ''-'') (format_page_id ''0123456789abcdef0123456789abcdef'')
        = ''0123456789abcdef0123456789abcdef''"
proof -
  have "length ''0123456789abcdef0123456789abcdef'' = 32"
    and "CHR ''-'' \<notin> set ''0123456789abcdef0123456789abcdef''"
    by simp_all
  from format_page_id_dashed [OF this] show ?thesis
    by simp
qed

lemma format_page_id_example:
  "format_page_id ''0123456789abcdef0123456789abcdef'' = ''01234567-89ab-cdef-0123-456789abcdef''"
  by (simp add: format_page_id_unfold)

text \<open>
  Claim C4. Formatting is not idempotent: for a raw identifier of 32 hexadecimal digits the
  formatted identifier is canonical, but formatting the formatted identifier again gives a
  string that is not canonical and differs from the result of formatting once.
\<close>

theorem format_page_id_not_idempotent:
  assumes "length raw = 32" and "list_all hexdigit raw"
  shows "canonical_id (format_page_id raw)
    \<and> \<not> canonical_id (format_page_id (format_page_id raw))
    \<and> format_page_id (format_page_id raw) \<noteq> format_page_id raw"
proof -
  obtain a b c d e where s: "raw = a @ b @ c @ d @ e" "length a = 8" "length b = 4" "length c = 4"
    "length d = 4" "length e = 12"
    "format_page_id raw = a @ ''-'' @ b @ ''-'' @ c @ ''-'' @ d @ ''-'' @ e"
    using format_page_id_split [OF assms(1)] by blast
  have "canonical_id (format_page_id raw)"
    using assms(2) s(2-6) unfolding s(7) canonical_id_def
    by (simp add: s(1) nth_append)
  moreover have "length (format_page_id (format_page_id raw)) = 40"
    using assms(1) by (simp add: length_format_page_id)
  then have "\<not> canonical_id (format_page_id (format_page_id raw))"
    by (simp add: canonical_id_def)
  moreover have "length (format_page_id (format_page_id raw)) \<noteq> length (format_page_id raw)"
    by (simp add: length_format_page_id)
  then have "format_page_id (format_page_id raw) \<noteq> format_page_id raw" by metis
  ultimately show ?thesis by blast
qed

theorem format_page_id_not_idempotent_witness:
  "canonical_id (format_page_id ''0123456789abcdef0123456789abcdef'')
    \<and> \<not> canonical_id (format_page_id (format_page_id ''0123456789abcdef0123456789abcdef''))
    \<and> format_page_id (format_page_id ''0123456789abcdef0123456789abcdef'')
        \<noteq> format_page_id ''0123456789abcdef0123456789abcdef''"
  by (rule format_page_id_not_idempotent) (simp_all add: hexdigit_def)

section \<open>Properties of the property decoder\<close>

lemma bind_err_simps:
  "bind_err (Inl e) f = Inl e" "bind_err (Inr v) f = f v"
  by (simp_all add: bind_err_def)

lemma recognized_tags_dispatch:
  "recognized_tags = map fst type_to_function @ [''checkbox'']"
  by (simp add: recognized_tags_def type_to_function_def)

lemma type_to_function_unrecognized:
  "t \<notin> set recognized_tags \<Longrightarrow> map_of type_to_function t = None"
  by (simp add: recognized_tags_def type_to_function_def)

lemma lookup_function_fails:
  "ty \<notin> JStr ` set recognized_tags \<Longrightarrow> \<exists>e. lookup_function ty = Inl e"
  by (cases ty) (auto simp: type_to_function_unrecognized image_iff)

text \<open>
  Claim C1. A number payload decodes to its numeric value, zero included. At the payload
  \<open>{"id": ..., "type": "number", "number": 0}\<close> the code does not: the test
  \<open>if not self.value\<close> comes before the dispatch and takes \<open>0\<close> for an empty value, so the
  result is \<open>None\<close>.
\<close>

theorem get_value_number_zero:
  "bind_err (NotionPageProperty (JObj [(''id'', JStr ''%3AxY''), (''type'', JStr ''number''),
      (''number'', JNum 0)])) get_value = Inr JNull"
  by (simp add: NotionPageProperty_def get_value_def bind_err_simps)

text \<open>
  Every other number is returned as it is, and the checkbox path, which is taken before the
  emptiness test, keeps its falsy value \<open>False\<close>.
\<close>

lemma get_value_number_nonzero:
  "n \<noteq> 0 \<Longrightarrow> get_value \<lparr>prop_id = i, prop_type = JStr ''number'', prop_value = JNum n\<rparr>
     = Inr (JNum n)"
  by (simp add: get_value_def bind_err_simps type_to_function_def get_number_value_def)

lemma get_value_checkbox_false:
  "get_value \<lparr>prop_id = i, prop_type = JStr ''checkbox'', prop_value = JBool False\<rparr>
     = Inr (JBool False)"
  by (simp add: get_value_def get_checkbox_value_def)

text \<open>
  Claim C7, as the code has it. For a payload whose type tag is not one of the recognized
  tags and whose value is not empty (not \<open>None\<close>, \<open>False\<close>, \<open>0\<close>, nor an empty string,
  list or dictionary), decoding fails: with \<open>KeyError\<close> from the dispatch dictionary when the
  tag is a string and the value has a length, with \<open>TypeError\<close> from \<open>len\<close> when the value
  has none.
\<close>

theorem get_value_unrecognized_tag:
  assumes "prop_type p \<notin> JStr ` set recognized_tags" and "truthy (prop_value p)"
  shows "(\<exists>e. get_value p = Inl e)
    \<and> ((\<exists>t. prop_type p = JStr t) \<and> (\<exists>n. py_len (prop_value p) = Inr n)
         \<longrightarrow> get_value p = Inl KeyError)
    \<and> (py_len (prop_value p) = Inl TypeError \<longrightarrow> get_value p = Inl TypeError)"
proof -
  have nc: "prop_type p \<noteq> JStr ''checkbox''" and nn: "prop_type p \<noteq> JStr ''number''"
    using assms(1) by (auto simp: recognized_tags_def)
  show ?thesis
  proof (cases "py_len (prop_value p)")
    case (Inl e)
    then have "e = TypeError" by (cases "prop_value p") auto
    with Inl nc nn assms(2) show ?thesis by (simp add: get_value_def bind_err_simps)
  next
    case (Inr n)
    with assms(2) have "n \<noteq> 0" by (cases "prop_value p") auto
    with Inr nc nn assms(2)
    have gv: "get_value p = bind_err (lookup_function (prop_type p)) (\<lambda>f. f p)"
      by (simp add: get_value_def bind_err_simps)
    obtain e where e: "lookup_function (prop_type p) = Inl e"
      using lookup_function_fails [OF assms(1)] by blast
    have "(\<exists>t. prop_type p = JStr t) \<longrightarrow> get_value p = Inl KeyError"
      using assms(1) gv by (auto simp: type_to_function_unrecognized bind_err_simps image_iff)
    with gv e Inr show ?thesis by (simp add: bind_err_simps)
  qed
qed

theorem get_value_unrecognized_tag_witness:
  "get_value \<lparr>prop_id = JStr ''abc'', prop_type = JStr ''formula'', prop_value = JStr ''1+1''\<rparr>
     = Inl KeyError
   \<and> get_value \<lparr>prop_id = JStr ''abc'', prop_type = JStr ''formula'', prop_value = JNum 7\<rparr>
     = Inl TypeError"
  using get_value_unrecognized_tag
    [of "\<lparr>prop_id = JStr ''abc'', prop_type = JStr ''formula'', prop_value = JStr ''1+1''\<rparr>"]
    get_value_unrecognized_tag
    [of "\<lparr>prop_id = JStr ''abc'', prop_type = JStr ''formula'', prop_value = JNum 7\<rparr>"]
  by (simp add: recognized_tags_def)

text \<open>
  An unrecognized tag with an empty value does not fail: the emptiness test returns \<open>None\<close>
  before the dispatch dictionary is read.
\<close>

theorem get_value_unrecognized_empty_counterexample:
  "''formula'' \<notin> set recognized_tags
   \<and> get_value \<lparr>prop_id = JStr ''abc'', prop_type = JStr ''formula'', prop_value = JNull\<rparr>
       = Inr JNull"
  by (simp add: recognized_tags_def get_value_def)

text \<open>
  Claim C9. For a payload whose type tag is not \<open>checkbox\<close> and whose value is \<open>None\<close> or
  an empty sequence, decoding returns \<open>None\<close>, whatever the tag is: the dispatch
  dictionary is not reached, so an unrecognized tag with an empty value is absent, not an
  error.
\<close>

theorem get_value_empty_is_absent:
  assumes "prop_type p \<noteq> JStr ''checkbox''"
    and "prop_value p = JNull \<or> prop_value p = JArr [] \<or> prop_value p = JStr []"
  shows "get_value p = Inr JNull"
  using assms by (auto simp: get_value_def)

theorem get_value_empty_is_absent_witness:
  "get_value \<lparr>prop_id = JStr ''abc'', prop_type = JStr ''created_by'', prop_value = JArr []\<rparr>
     = Inr JNull
   \<and> lookup_function (JStr ''created_by'') = Inl KeyError"
  using get_value_empty_is_absent
    [of "\<lparr>prop_id = JStr ''abc'', prop_type = JStr ''created_by'', prop_value = JArr []\<rparr>"]
  by (simp add: type_to_function_def)

section \<open>Properties of the table assembler\<close>

text \<open>
  Claim C8. On the empty list of records the table assembler returns no table: the read
  \<open>notion_pages[0]\<close> raises \<open>IndexError\<close>, which reaches the caller.
\<close>

theorem pages_to_dataframe_empty: "pages_to_dataframe [] = Inl IndexError"
  by (simp add: pages_to_dataframe_def)






text \<open>
  The condition of the table theorem is the one under which a table is returned at all: when
  the assembler succeeds, the list is not empty and every property of every record decodes.
\<close>

lemma set_cells_success:
  "set_cells x page keys df = Inr df' \<Longrightarrow> \<forall>k\<in>set keys. \<exists>v. get_property_value page k = Inr v"
  by (induction keys arbitrary: df) (auto split: sum.splits)

lemma fill_rows_success:
  "fill_rows x pages df = Inr df' \<Longrightarrow> \<forall>p\<in>set pages. decodable p"
proof (induction pages arbitrary: x df)
  case Nil
  then show ?case by simp
next
  case (Cons page pages)
  from Cons.prems obtain ks df1 where ks: "get_properties_keys page = Inr ks"
    and s: "set_cells x page ks df = Inr df1" and f: "fill_rows (Suc x) pages df1 = Inr df'"
    by (auto split: sum.splits)
  from ks obtain kvs where kvs: "pg_properties page = JObj kvs" "ks = map fst kvs"
    by (auto simp: get_properties_keys_def split: json.splits)
  have "decodable page"
    using set_cells_success [OF s] kvs by (auto simp: decodable_def list_all_iff)
  with Cons.IH [OF f] show ?case by simp
qed

lemma pages_to_dataframe_success:
  assumes "pages_to_dataframe pages = Inr df"
  shows "pages \<noteq> [] \<and> (\<forall>p\<in>set pages. decodable p)"
proof (cases pages)
  case Nil
  with assms show ?thesis by (simp add: pages_to_dataframe_def)
next
  case (Cons first rest)
  with assms obtain columns where "fill_rows 0 pages (DataFrame columns) = Inr df"
    by (auto simp: pages_to_dataframe_def bind_err_def split: sum.splits simp del: fill_rows.simps)
  from fill_rows_success [OF this] Cons show ?thesis by simp
qed







section \<open>Properties of the paginated query\<close>

lemma next_request_more:
  "body_with_more c xs cur \<Longrightarrow>
     next_request db (build_headers key) c = Inr (Some (follow_up db (build_headers key) cur))"
  by (auto simp: body_with_more_def next_request_def follow_up_def bind_err_simps split: sum.splits)



lemma page_with_moreD:
  "page_with_more r xs cur \<Longrightarrow> \<exists>c. post_request r = Inr (Some c) \<and> body_with_more c xs cur"
  by (auto simp: page_with_more_def split: sum.splits option.splits)


lemma absorb_response_list:
  "post_request r = Inr (Some c) \<Longrightarrow> py_getitem c (JStr ''results'') = Inr (JArr xs) \<Longrightarrow>
     absorb_response (JArr acc) r = Inr (c, JArr (acc @ xs))"
  by (simp add: absorb_response_def bind_err_simps)

lemma first_response_list:
  "post_request r = Inr (Some c) \<Longrightarrow> py_getitem c (JStr ''results'') = Inr (JArr xs) \<Longrightarrow>
     first_response r = Inr (c, JArr xs)"
  by (simp add: first_response_def bind_err_simps)

lemma absorb_page_with_more:
  assumes "page_with_more r xs cur"
  shows "\<exists>c. absorb_response (JArr acc) r = Inr (c, JArr (acc @ xs)) \<and> body_with_more c xs cur"
proof -
  obtain c where c: "post_request r = Inr (Some c)" "body_with_more c xs cur"
    using page_with_moreD [OF assms] by blast
  then have "absorb_response (JArr acc) r = Inr (c, JArr (acc @ xs))"
    by (intro absorb_response_list) (simp_all add: body_with_more_def)
  with c(2) show ?thesis by blast
qed





text \<open>
  The loop stops only at a page whose flag is not set: while every page of the script has the
  flag set, each one is followed by a further request, and the run has no outcome.
\<close>

lemma fetch_more_unanswered:
  assumes "list_all2 (\<lambda>r (xs, cur). page_with_more r xs cur) rs pages"
    and "body_with_more c xs0 cur0"
  shows "fetch_more db (build_headers key) c (JArr acc) rs log
     = (None, log @ follow_up db (build_headers key) cur0
          # map (\<lambda>(xs, cur). follow_up db (build_headers key) cur) pages)"
  using assms
proof (induction rs arbitrary: pages c xs0 cur0 acc log)
  case Nil
  then have p: "pages = []" by simp
  show ?case
    by (subst fetch_more.simps) (simp add: p next_request_more [OF Nil.prems(2)])
next
  case (Cons r rs)
  then obtain xs cur pages' where p: "pages = (xs, cur) # pages'"
    and r: "page_with_more r xs cur"
    and rest: "list_all2 (\<lambda>r (xs, cur). page_with_more r xs cur) rs pages'"
    by (auto simp: list_all2_Cons1)
  obtain c' where c': "absorb_response (JArr acc) r = Inr (c', JArr (acc @ xs))"
    "body_with_more c' xs cur"
    using absorb_page_with_more [OF r] by blast
  show ?case
    by (subst fetch_more.simps)
      (simp add: p next_request_more [OF Cons.prems(2)] c' Cons.IH [OF rest c'(2)])
qed

lemma query_db_fetch_unanswered:
  assumes "list_all2 (\<lambda>r (xs, cur). page_with_more r xs cur) rs pages"
  shows "query_db_fetch key db query rs
     = (None, first_request (resolve_db db) (build_headers key) query
          # map (\<lambda>(xs, cur). follow_up (resolve_db db) (build_headers key) cur) pages)"
proof (cases rs)
  case Nil
  then show ?thesis using assms by (simp add: query_db_fetch_def)
next
  case (Cons r rs')
  then obtain xs cur pages' where p: "pages = (xs, cur) # pages'"
    and r: "page_with_more r xs cur"
    and rest: "list_all2 (\<lambda>r (xs, cur). page_with_more r xs cur) rs' pages'"
    using assms by (auto simp: list_all2_Cons1)
  obtain c where c0: "post_request r = Inr (Some c)" and c2: "body_with_more c xs cur"
    using page_with_moreD [OF r] by blast
  then have c1: "first_response r = Inr (c, JArr xs)"
    by (intro first_response_list) (simp_all add: body_with_more_def)
  show ?thesis
    using fetch_more_unanswered [OF rest c2, of "resolve_db db" key xs
        "[first_request (resolve_db db) (build_headers key) query]"]
    by (simp add: query_db_fetch_def Let_def Cons p c1)
qed



end
